theory Spec2Isabelle
  imports Complex_Main "HOL-Library.Multiset" "HOL-Library.Sublist" "HOL-Library.Log_Nat"
    "HOL-Library.Product_Lexorder"
begin

section \<open>Data model of \<open>src/models.py\<close>\<close>

text \<open>
  Modelling conventions.
  \<^item> A Python float is a \<open>pyfloat\<close>: NaN, an infinity or a finite number. Comparisons are
    the ones of Python, false whenever an operand is NaN. \<open>float(v)\<close> of an \<open>int\<close> rounds to
    53 bits, to the nearest and to even on a tie, and raises \<open>OverflowError\<close> when the
    result does not fit.
  \<^item> A \<open>datetime\<close> is naive or aware, with the number of microseconds it denotes (of
    its UTC instant when aware). Comparing a naive with an aware one raises \<open>TypeError\<close>.
    \<open>datetime.now()\<close> is naive.
  \<^item> Participants are objects shared by reference: a bid, the auction's winner and the
    caller all point to the same object, and \<open>marcar_como_ofertante\<close> mutates it. A
    reference is a \<open>nat\<close> and the objects live in a store \<open>heap\<close>.
  \<^item> Every call of \<open>datetime.now()\<close> is a separate reading of the clock. A function that
    reads the clock once takes the reading \<open>agora\<close>; a function that reads it several
    times takes \<open>clk\<close>, where \<open>clk k\<close> is its \<open>k\<close>-th reading.
  \<^item> A method that mutates its object returns the object as the call leaves it, paired
    with the exception raised (\<open>Inl\<close>) or the value returned (\<open>Inr\<close>). A constructor that
    raises leaves no object, so it returns the exception or the object.
  \<^item> Private attributes \<open>_x\<close> are the fields \<open>priv_x\<close>.
\<close>

datatype pyfloat = NaN | MenosInf | Finito real | MaisInf

datatype pydatetime = Naive int | Aware int

type_synonym ref = nat

record Participante =
  participante_nome :: string
  cpf :: string
  email :: string
  data_nascimento :: int
  priv_possui_lances :: bool

type_synonym heap = "ref \<Rightarrow> Participante"

record Lance =
  participante :: ref
  valor :: pyfloat

datatype EstadoLeilao = INATIVO | ABERTO | FINALIZADO | EXPIRADO

record Leilao =
  nome :: string
  lance_minimo :: pyfloat
  data_inicio :: pydatetime
  data_termino :: pydatetime
  priv_lances :: "Lance list"
  priv_estado :: EstadoLeilao
  priv_ganhador :: "ref option"

text \<open>
  The dynamically typed values that the constructors, \<open>propor_lance\<close> and
  \<open>alterar_leilao\<close> test with \<open>isinstance\<close>. \<open>PyOutro\<close> is an object of any other class.
\<close>

datatype pyval =
    PyNone
  | PyBool bool
  | PyInt int
  | PyFloat pyfloat
  | PyStr string
  | PyDatetime pydatetime
  | PyParticipante ref
  | PyLance Lance
  | PyOutro

text \<open>The exceptions, with the data their messages are formatted from.\<close>

datatype valor_invalido =
    NomeInvalido
  | LanceMinimoNaoPositivo
  | DatasNaoDatetime
  | InicioNaoAnterior
  | ValorDoLanceNaoPositivo

datatype tipo_invalido =
    ObjetoDeLanceInvalido
  | ParticipanteInvalidoParaOLance
  | NaiveComAware

datatype motivo =
    Desconhecido
  | AbaixoDoMinimo pyfloat pyfloat
  | NaoMaiorQueUltimo pyfloat pyfloat
  | DoisLancesSeguidos

datatype leilao_invalido =
    NaoAberto string EstadoLeilao
  | NaoEncontrado pyval
  | NaoPodeSerAlterado string EstadoLeilao
  | JaExiste pyval

datatype erro =
    ValueError valor_invalido
  | TypeError tipo_invalido
  | OverflowError
  | LeilaoInvalido leilao_invalido
  | LanceInvalido string motivo

section \<open>Python floats and datetimes\<close>

text \<open>
  The order of the floats that are not NaN: \<open>posto\<close> maps them into the lexicographic
  order of pairs. \<open>fl_lt\<close> is \<open><\<close> and \<open>fl_le\<close> is \<open><=\<close> of Python; \<open>a > b\<close> is \<open>fl_lt b a\<close>
  and \<open>a >= b\<close> is \<open>fl_le b a\<close>.
\<close>

fun posto :: "pyfloat \<Rightarrow> int \<times> real" where
  "posto MenosInf = (- 1, 0)"
| "posto (Finito x) = (0, x)"
| "posto MaisInf = (1, 0)"
| "posto NaN = (2, 0)"

definition fl_lt :: "pyfloat \<Rightarrow> pyfloat \<Rightarrow> bool" where
  "fl_lt a b \<longleftrightarrow> a \<noteq> NaN \<and> b \<noteq> NaN \<and> posto a < posto b"

definition fl_le :: "pyfloat \<Rightarrow> pyfloat \<Rightarrow> bool" where
  "fl_le a b \<longleftrightarrow> a \<noteq> NaN \<and> b \<noteq> NaN \<and> posto a \<le> posto b"

text \<open>
  \<open>float(i)\<close> for an \<open>int\<close>: the magnitude keeps its 53 leading bits, rounded to the
  nearest and to even on a tie; a result of \<open>2 ^ 1024\<close> or more raises \<open>OverflowError\<close>.
\<close>

definition arredondar :: "int \<Rightarrow> int" where
  "arredondar n =
     (if bitlen n \<le> 53 then n
      else
        (let s = nat (bitlen n - 53);
             q = n div 2 ^ s;
             r = n mod 2 ^ s;
             metade = 2 ^ (s - 1)
         in (if metade < r \<or> (r = metade \<and> odd q) then q + 1 else q) * 2 ^ s))"

definition float_de_int :: "int \<Rightarrow> erro + pyfloat" where
  "float_de_int i =
     (if 2 ^ 1024 \<le> arredondar \<bar>i\<bar> then Inl OverflowError
      else Inr (Finito (of_int (sgn i * arredondar \<bar>i\<bar>))))"

text \<open>
  \<open>isinstance(v, (int, float))\<close> with the number found (\<open>bool\<close> is a subclass of \<open>int\<close>),
  the test \<open>v <= 0\<close> on such a number, and \<open>float(v)\<close>.
\<close>

datatype numero = NumInt int | NumFloat pyfloat

fun numero_de :: "pyval \<Rightarrow> numero option" where
  "numero_de (PyInt i) = Some (NumInt i)"
| "numero_de (PyBool b) = Some (NumInt (if b then 1 else 0))"
| "numero_de (PyFloat x) = Some (NumFloat x)"
| "numero_de _ = None"

fun nao_positivo :: "numero \<Rightarrow> bool" where
  "nao_positivo (NumInt i) = (i \<le> 0)"
| "nao_positivo (NumFloat x) = fl_le x (Finito 0)"

fun py_float :: "numero \<Rightarrow> erro + pyfloat" where
  "py_float (NumInt i) = float_de_int i"
| "py_float (NumFloat x) = Inr x"

text \<open>\<open>a < b\<close>, \<open>a <= b\<close> and \<open>a >= b\<close> of two datetimes.\<close>

fun dt_lt :: "pydatetime \<Rightarrow> pydatetime \<Rightarrow> erro + bool" where
  "dt_lt (Naive a) (Naive b) = Inr (a < b)"
| "dt_lt (Aware a) (Aware b) = Inr (a < b)"
| "dt_lt (Naive a) (Aware b) = Inl (TypeError NaiveComAware)"
| "dt_lt (Aware a) (Naive b) = Inl (TypeError NaiveComAware)"

fun dt_le :: "pydatetime \<Rightarrow> pydatetime \<Rightarrow> erro + bool" where
  "dt_le (Naive a) (Naive b) = Inr (a \<le> b)"
| "dt_le (Aware a) (Aware b) = Inr (a \<le> b)"
| "dt_le (Naive a) (Aware b) = Inl (TypeError NaiveComAware)"
| "dt_le (Aware a) (Naive b) = Inl (TypeError NaiveComAware)"

fun dt_ge :: "pydatetime \<Rightarrow> pydatetime \<Rightarrow> erro + bool" where
  "dt_ge (Naive a) (Naive b) = Inr (a \<ge> b)"
| "dt_ge (Aware a) (Aware b) = Inr (a \<ge> b)"
| "dt_ge (Naive a) (Aware b) = Inl (TypeError NaiveComAware)"
| "dt_ge (Aware a) (Naive b) = Inl (TypeError NaiveComAware)"

section \<open>\<open>Participante\<close> and \<open>Lance\<close>\<close>

text \<open>\<open>Participante.marcar_como_ofertante\<close> and \<open>Participante.__eq__\<close>.\<close>

definition marcar_como_ofertante :: "Participante \<Rightarrow> Participante" where
  "marcar_como_ofertante p = p\<lparr>priv_possui_lances := True\<rparr>"

definition participante_eq :: "Participante \<Rightarrow> Participante \<Rightarrow> bool" where
  "participante_eq p other \<longleftrightarrow> cpf p = cpf other \<or> email p = email other"

text \<open>
  \<open>Lance.__init__\<close>: \<open>TypeError\<close> for a bidder that is not a \<open>Participante\<close>,
  \<open>ValueError\<close> for an amount that is not a number or is \<open><= 0\<close>, then \<open>float(valor)\<close>.
\<close>

definition Lance_init :: "pyval \<Rightarrow> pyval \<Rightarrow> erro + Lance" where
  "Lance_init participante0 valor0 =
     (case participante0 of
        PyParticipante p \<Rightarrow>
          (case numero_de valor0 of
             None \<Rightarrow> Inl (ValueError ValorDoLanceNaoPositivo)
           | Some n \<Rightarrow>
               if nao_positivo n then Inl (ValueError ValorDoLanceNaoPositivo)
               else
                 (case py_float n of
                    Inl e \<Rightarrow> Inl e
                  | Inr v \<Rightarrow> Inr \<lparr>participante = p, valor = v\<rparr>))
      | _ \<Rightarrow> Inl (TypeError ParticipanteInvalidoParaOLance))"

section \<open>The built-ins \<open>max\<close>, \<open>min\<close> and \<open>sorted\<close> with a float key\<close>

text \<open>
  \<open>max(xs, key=f)\<close> keeps the first item and replaces it only by an item whose key is
  greater than the kept one's (\<open>>\<close> of Python); \<open>min\<close> only by one whose key is smaller.
\<close>

fun py_max :: "('a \<Rightarrow> pyfloat) \<Rightarrow> 'a \<Rightarrow> 'a list \<Rightarrow> 'a" where
  "py_max f m [] = m"
| "py_max f m (x # xs) = py_max f (if fl_lt (f m) (f x) then x else m) xs"

fun py_min :: "('a \<Rightarrow> pyfloat) \<Rightarrow> 'a \<Rightarrow> 'a list \<Rightarrow> 'a" where
  "py_min f m [] = m"
| "py_min f m (x # xs) = py_min f (if fl_lt (f x) (f m) then x else m) xs"

text \<open>
  \<open>sorted(xs, key=f)\<close> returns a new list. It is stable, so when no key is NaN the
  result is the one stable sort of \<open>xs\<close> by key. When a key is NaN the comparisons are
  not an order and the result depends on the internals of the sort, which only moves
  items: the model then admits every permutation of \<open>xs\<close>. \<open>py_sorted f xs ys\<close> says that
  \<open>ys\<close> is a possible result.
\<close>

definition py_sorted :: "('a \<Rightarrow> pyfloat) \<Rightarrow> 'a list \<Rightarrow> 'a list \<Rightarrow> bool" where
  "py_sorted f xs ys \<longleftrightarrow>
     (if NaN \<in> f ` set xs then mset ys = mset xs else ys = sort_key (\<lambda>x. posto (f x)) xs)"

section \<open>\<open>Leilao\<close>: queries\<close>

definition lances :: "Leilao \<Rightarrow> Lance list \<Rightarrow> bool" where
  "lances l ys \<longleftrightarrow> py_sorted valor (priv_lances l) ys"

definition ultimo_lance :: "Leilao \<Rightarrow> Lance option" where
  "ultimo_lance l = (if priv_lances l \<noteq> [] then Some (last (priv_lances l)) else None)"

definition maior_lance :: "Leilao \<Rightarrow> Lance option" where
  "maior_lance l =
     (case priv_lances l of [] \<Rightarrow> None | x # xs \<Rightarrow> Some (py_max valor x xs))"

definition menor_lance :: "Leilao \<Rightarrow> Lance option" where
  "menor_lance l =
     (case priv_lances l of [] \<Rightarrow> None | x # xs \<Rightarrow> Some (py_min valor x xs))"

section \<open>\<open>Leilao.atualizar_estado\<close> and the properties that call it\<close>

text \<open>
  The chained comparison \<open>self.data_inicio <= agora < self.data_termino\<close>: the second
  comparison is made only when the first is true.
\<close>

definition dentro_da_janela :: "int \<Rightarrow> Leilao \<Rightarrow> erro + bool" where
  "dentro_da_janela agora l =
     (case dt_le (data_inicio l) (Naive agora) of
        Inl e \<Rightarrow> Inl e
      | Inr b \<Rightarrow> if b then dt_lt (Naive agora) (data_termino l) else Inr False)"

text \<open>
  \<open>atualizar_estado\<close> assigns only after its last comparison, so when a comparison
  raises the auction is as it was.
\<close>

definition atualizar_estado :: "int \<Rightarrow> Leilao \<Rightarrow> Leilao \<times> (erro + unit)" where
  "atualizar_estado agora l =
     (if priv_estado l = FINALIZADO then (l, Inr ())
      else
        (case dt_lt (Naive agora) (data_inicio l) of
           Inl e \<Rightarrow> (l, Inl e)
         | Inr antes \<Rightarrow>
             if antes then (l\<lparr>priv_estado := INATIVO\<rparr>, Inr ())
             else
               (case dentro_da_janela agora l of
                  Inl e \<Rightarrow> (l, Inl e)
                | Inr dentro \<Rightarrow>
                    if dentro then (l\<lparr>priv_estado := ABERTO\<rparr>, Inr ())
                    else
                      (case dt_ge (Naive agora) (data_termino l) of
                         Inl e \<Rightarrow> (l, Inl e)
                       | Inr depois \<Rightarrow>
                           if depois then
                             (if priv_lances l \<noteq> [] then
                                (case maior_lance l of
                                   Some maior \<Rightarrow>
                                     (l\<lparr>priv_estado := FINALIZADO,
                                        priv_ganhador := Some (participante maior)\<rparr>, Inr ())
                                 | None \<Rightarrow> (l\<lparr>priv_estado := FINALIZADO\<rparr>, Inr ()))
                              else (l\<lparr>priv_estado := EXPIRADO\<rparr>, Inr ()))
                           else (l, Inr ())))))"

definition estado :: "int \<Rightarrow> Leilao \<Rightarrow> Leilao \<times> (erro + EstadoLeilao)" where
  "estado agora l =
     (let (l', r) = atualizar_estado agora l in
      case r of Inl e \<Rightarrow> (l', Inl e) | Inr u \<Rightarrow> (l', Inr (priv_estado l')))"

definition ganhador :: "int \<Rightarrow> Leilao \<Rightarrow> Leilao \<times> (erro + ref option)" where
  "ganhador agora l =
     (let (l', r) = estado agora l in
      case r of
        Inl e \<Rightarrow> (l', Inl e)
      | Inr e \<Rightarrow> if e = FINALIZADO then (l', Inr (priv_ganhador l')) else (l', Inr None))"

definition pode_ser_alterado_ou_excluido :: "int \<Rightarrow> Leilao \<Rightarrow> Leilao \<times> (erro + bool)" where
  "pode_ser_alterado_ou_excluido agora l =
     (let (l', r) = estado agora l in
      case r of
        Inl e \<Rightarrow> (l', Inl e)
      | Inr estado_atual \<Rightarrow> (l', Inr (estado_atual = INATIVO \<or> estado_atual = EXPIRADO)))"

section \<open>Bid admission: \<open>Leilao._pode_receber_lance\<close> and \<open>Leilao.propor_lance\<close>\<close>

text \<open>
  \<open>_pode_receber_lance\<close> reads \<open>self.estado\<close>, hence the clock, once. Past the guard
  \<open>if not self._lances\<close> the log is non-empty, where \<open>self.ultimo_lance\<close> is its last item.
\<close>

definition pode_receber_lance ::
  "int \<Rightarrow> heap \<Rightarrow> Leilao \<Rightarrow> ref \<Rightarrow> pyfloat \<Rightarrow> Leilao \<times> (erro + bool)" where
  "pode_receber_lance agora h l p v =
     (let (l', r) = estado agora l in
      case r of
        Inl e \<Rightarrow> (l', Inl e)
      | Inr e \<Rightarrow>
          if e \<noteq> ABERTO then (l', Inr False)
          else if fl_lt v (lance_minimo l') then (l', Inr False)
          else if priv_lances l' = [] then (l', Inr True)
          else
            (let ultimo = last (priv_lances l') in
             if fl_le v (valor ultimo) then (l', Inr False)
             else if participante_eq (h p) (h (participante ultimo)) then (l', Inr False)
             else (l', Inr True)))"

text \<open>The reason that \<open>propor_lance\<close> formats into the message of \<open>LanceInvalido\<close>.\<close>

definition motivo_rejeicao :: "heap \<Rightarrow> Leilao \<Rightarrow> Lance \<Rightarrow> motivo" where
  "motivo_rejeicao h l lance =
     (if fl_lt (valor lance) (lance_minimo l)
        then AbaixoDoMinimo (valor lance) (lance_minimo l)
      else if priv_lances l \<noteq> [] then
        (let ultimo = last (priv_lances l) in
         if fl_le (valor lance) (valor ultimo)
           then NaoMaiorQueUltimo (valor lance) (valor ultimo)
         else if participante_eq (h (participante lance)) (h (participante ultimo))
           then DoisLancesSeguidos
         else Desconhecido)
      else Desconhecido)"

text \<open>
  \<open>propor_lance\<close> reads the clock three times: in \<open>atualizar_estado()\<close>, in the test of
  \<open>self.estado\<close>, and then either in \<open>self.estado.name\<close> of the message or in
  \<open>_pode_receber_lance\<close>. The result is the store and the auction as the call leaves
  them, with the exception raised or \<open>()\<close>.
\<close>

definition propor_lance ::
  "(nat \<Rightarrow> int) \<Rightarrow> pyval \<Rightarrow> heap \<times> Leilao \<Rightarrow> (heap \<times> Leilao) \<times> (erro + unit)" where
  "propor_lance clk arg w =
     (let h = fst w; (l0, r0) = atualizar_estado (clk 0) (snd w) in
      case r0 of
        Inl e \<Rightarrow> ((h, l0), Inl e)
      | Inr u \<Rightarrow>
          (let (l1, r1) = estado (clk 1) l0 in
           case r1 of
             Inl e \<Rightarrow> ((h, l1), Inl e)
           | Inr e1 \<Rightarrow>
               if e1 \<noteq> ABERTO then
                 (let (l2, r2) = estado (clk 2) l1 in
                  case r2 of
                    Inl e \<Rightarrow> ((h, l2), Inl e)
                  | Inr e2 \<Rightarrow> ((h, l2), Inl (LeilaoInvalido (NaoAberto (nome l2) e2))))
               else
                 (case arg of
                    PyLance lance \<Rightarrow>
                      (let (l2, r2) =
                             pode_receber_lance (clk 2) h l1 (participante lance) (valor lance)
                       in
                       case r2 of
                         Inl e \<Rightarrow> ((h, l2), Inl e)
                       | Inr pode \<Rightarrow>
                           if \<not> pode then
                             ((h, l2),
                              Inl (LanceInvalido (nome l2) (motivo_rejeicao h l2 lance)))
                           else
                             ((h(participante lance :=
                                   marcar_como_ofertante (h (participante lance))),
                               l2\<lparr>priv_lances := priv_lances l2 @ [lance]\<rparr>),
                              Inr ()))
                  | _ \<Rightarrow> ((h, l1), Inl (TypeError ObjetoDeLanceInvalido)))))"

text \<open>
  A caller that proposes one argument after another to the same auction, each call with
  its own clock readings, and goes on after an exception (as the tests do).
\<close>

fun propor_lances ::
  "((nat \<Rightarrow> int) \<times> pyval) list \<Rightarrow> heap \<times> Leilao \<Rightarrow> heap \<times> Leilao" where
  "propor_lances [] w = w"
| "propor_lances (ca # cas) w = propor_lances cas (fst (propor_lance (fst ca) (snd ca) w))"

section \<open>Construction and alteration\<close>

text \<open>\<open>isinstance(v, str)\<close> and \<open>isinstance(v, datetime)\<close>, each with the value found.\<close>

fun texto :: "pyval \<Rightarrow> string option" where
  "texto (PyStr s) = Some s"
| "texto _ = None"

fun instante :: "pyval \<Rightarrow> pydatetime option" where
  "instante (PyDatetime t) = Some t"
| "instante _ = None"

text \<open>
  The four checks of \<open>Leilao.__init__\<close> (lines 161 to 168 of \<open>models.py\<close>), which
  \<open>alterar_leilao\<close> (lines 94 to 101 of \<open>sistema.py\<close>) repeats in the same order on the
  values it is about to assign. Each raises \<open>ValueError\<close>, and the first that fails
  decides; the comparison of the two datetimes raises \<open>TypeError\<close> when one is naive and
  the other aware. \<open>not nome\<close> rejects the empty string.
\<close>

definition validar ::
  "pyval \<Rightarrow> pyval \<Rightarrow> pyval \<Rightarrow> pyval \<Rightarrow> erro + string \<times> numero \<times> pydatetime \<times> pydatetime" where
  "validar nome0 lance_minimo0 data_inicio0 data_termino0 =
     (case texto nome0 of
        None \<Rightarrow> Inl (ValueError NomeInvalido)
      | Some s \<Rightarrow>
          if s = [] then Inl (ValueError NomeInvalido)
          else
            (case numero_de lance_minimo0 of
               None \<Rightarrow> Inl (ValueError LanceMinimoNaoPositivo)
             | Some m \<Rightarrow>
                 if nao_positivo m then Inl (ValueError LanceMinimoNaoPositivo)
                 else
                   (case (instante data_inicio0, instante data_termino0) of
                      (Some a, Some b) \<Rightarrow>
                        (case dt_ge a b of
                           Inl e \<Rightarrow> Inl e
                         | Inr nao_anterior \<Rightarrow>
                             if nao_anterior then Inl (ValueError InicioNaoAnterior)
                             else Inr (s, m, a, b))
                    | _ \<Rightarrow> Inl (ValueError DatasNaoDatetime))))"

text \<open>
  \<open>Leilao.__init__\<close>: the checks, the assignments with \<open>float(lance_minimo)\<close>, and a
  final \<open>atualizar_estado()\<close> whose clock reading is \<open>agora\<close>. An exception, of the checks,
  of \<open>float\<close> or of \<open>atualizar_estado\<close>, leaves no object behind.
\<close>

definition Leilao_init :: "pyval \<Rightarrow> pyval \<Rightarrow> pyval \<Rightarrow> pyval \<Rightarrow> int \<Rightarrow> erro + Leilao" where
  "Leilao_init nome0 lance_minimo0 data_inicio0 data_termino0 agora =
     (case validar nome0 lance_minimo0 data_inicio0 data_termino0 of
        Inl e \<Rightarrow> Inl e
      | Inr (s, m, a, b) \<Rightarrow>
          (case py_float m of
             Inl e \<Rightarrow> Inl e
           | Inr x \<Rightarrow>
               (let (l, r) = atualizar_estado agora
                      \<lparr>nome = s, lance_minimo = x, data_inicio = a, data_termino = b,
                       priv_lances = [], priv_estado = INATIVO, priv_ganhador = None\<rparr>
                in case r of Inl e \<Rightarrow> Inl e | Inr u \<Rightarrow> Inr l)))"

text \<open>
  \<open>SistemaLeiloes._leiloes\<close> is the list of the registered auctions, and a reference to
  one of them is its position. \<open>buscar_leilao_por_nome\<close> finds the first auction whose
  name equals the argument; a name is a \<open>str\<close> and equals no value of another type.
\<close>

fun buscar_leilao_por_nome :: "Leilao list \<Rightarrow> pyval \<Rightarrow> nat option" where
  "buscar_leilao_por_nome [] n = None"
| "buscar_leilao_por_nome (l # ls) n =
     (if PyStr (nome l) = n then Some 0 else map_option Suc (buscar_leilao_por_nome ls n))"

text \<open>
  \<open>SistemaLeiloes.alterar_leilao\<close>. It reads the clock in
  \<open>pode_ser_alterado_ou_excluido\<close> and then either in the message's \<open>estado.name\<close> or in
  the final \<open>atualizar_estado()\<close>. An argument left out is \<open>PyNone\<close>. After the checks it
  assigns the name (line 103), then the minimum (line 104, where \<open>float\<close> can raise), then
  the two dates (lines 105 and 106), and then derives the state (line 107, which can
  raise): an exception there leaves the auction with what was assigned before it.
\<close>

definition alterar_leilao ::
  "(nat \<Rightarrow> int) \<Rightarrow> pyval \<Rightarrow> pyval \<Rightarrow> pyval \<Rightarrow> pyval \<Rightarrow> pyval \<Rightarrow> Leilao list
     \<Rightarrow> Leilao list \<times> (erro + unit)" where
  "alterar_leilao clk nome_atual novo_nome novo_lance_minimo nova_data_inicio nova_data_termino ls =
     (case buscar_leilao_por_nome ls nome_atual of
        None \<Rightarrow> (ls, Inl (LeilaoInvalido (NaoEncontrado nome_atual)))
      | Some i \<Rightarrow>
          (let (l1, r1) = pode_ser_alterado_ou_excluido (clk 0) (ls ! i);
               ls1 = ls[i := l1]
           in
           case r1 of
             Inl e \<Rightarrow> (ls1, Inl e)
           | Inr pode \<Rightarrow>
               if \<not> pode then
                 (let (l2, r2) = estado (clk 1) l1 in
                  case r2 of
                    Inl e \<Rightarrow> (ls[i := l2], Inl e)
                  | Inr e \<Rightarrow>
                      (ls[i := l2], Inl (LeilaoInvalido (NaoPodeSerAlterado (nome l2) e))))
               else if novo_nome \<noteq> PyNone \<and> novo_nome \<noteq> nome_atual
                       \<and> buscar_leilao_por_nome ls1 novo_nome \<noteq> None then
                 (ls1, Inl (LeilaoInvalido (JaExiste novo_nome)))
               else
                 (let temp_nome = (if novo_nome \<noteq> PyNone then novo_nome else PyStr (nome l1));
                      temp_lance_minimo =
                        (if novo_lance_minimo \<noteq> PyNone then novo_lance_minimo
                         else PyFloat (lance_minimo l1));
                      temp_data_inicio =
                        (if nova_data_inicio \<noteq> PyNone then nova_data_inicio
                         else PyDatetime (data_inicio l1));
                      temp_data_termino =
                        (if nova_data_termino \<noteq> PyNone then nova_data_termino
                         else PyDatetime (data_termino l1))
                  in
                  case validar temp_nome temp_lance_minimo temp_data_inicio temp_data_termino of
                    Inl e \<Rightarrow> (ls1, Inl e)
                  | Inr (s, m, a, b) \<Rightarrow>
                      (case py_float m of
                         Inl e \<Rightarrow> (ls[i := l1\<lparr>nome := s\<rparr>], Inl e)
                       | Inr x \<Rightarrow>
                           (let (l2, r2) = atualizar_estado (clk 1)
                                  (l1\<lparr>nome := s, lance_minimo := x,
                                      data_inicio := a, data_termino := b\<rparr>)
                            in (ls[i := l2], r2))))))"

section \<open>The auctions that the interface can produce\<close>

text \<open>
  An auction is built by the constructor and then changed only by a state derivation
  (\<open>atualizar_estado\<close>, or a property or listing that calls it), by \<open>propor_lance\<close>, and by
  \<open>alterar_leilao\<close> when it is registered in a system. Clock readings, arguments and the
  store of participants are arbitrary at every step.
\<close>

inductive alcancavel :: "Leilao \<Rightarrow> bool" where
  criado: "Leilao_init n lm di dt agora = Inr l \<Longrightarrow> alcancavel l"
| atualizado: "alcancavel l \<Longrightarrow> alcancavel (fst (atualizar_estado agora l))"
| proposto: "alcancavel l \<Longrightarrow> propor_lance clk arg (h, l) = ((h', l'), r) \<Longrightarrow> alcancavel l'"
| alterado:
    "alcancavel l \<Longrightarrow> i < length ls \<Longrightarrow> ls ! i = l
     \<Longrightarrow> alterar_leilao clk na nn nlm ndi ndt ls = (ls', r) \<Longrightarrow> alcancavel (ls' ! i)"

section \<open>Example objects\<close>

definition alice :: Participante where
  "alice = \<lparr>participante_nome = ''Alice'', cpf = ''11111111111'', email = ''alice@test.com'',
            data_nascimento = 0, priv_possui_lances = False\<rparr>"

definition bob :: Participante where
  "bob = \<lparr>participante_nome = ''Bob'', cpf = ''22222222222'', email = ''bob@test.com'',
          data_nascimento = 1, priv_possui_lances = False\<rparr>"

text \<open>A store where reference \<open>0\<close> is Alice and every other reference is Bob.\<close>

definition heap_exemplo :: heap where
  "heap_exemplo = (\<lambda>r. if r = 0 then alice else bob)"

text \<open>
  An auction of minimum 100 whose window is \<open>[10, 20)\<close>, as the constructor leaves it
  at time 5; the same auction after Alice's bid of 110 at time 15; and after time 20.
\<close>

definition leilao_exemplo :: Leilao where
  "leilao_exemplo =
     \<lparr>nome = ''Console'', lance_minimo = Finito 100, data_inicio = Naive 10,
      data_termino = Naive 20, priv_lances = [], priv_estado = INATIVO, priv_ganhador = None\<rparr>"

definition leilao_um_lance :: Leilao where
  "leilao_um_lance =
     leilao_exemplo\<lparr>priv_lances := [\<lparr>participante = 0, valor = Finito 110\<rparr>],
                    priv_estado := ABERTO\<rparr>"

definition leilao_finalizado :: Leilao where
  "leilao_finalizado = leilao_um_lance\<lparr>priv_estado := FINALIZADO, priv_ganhador := Some 0\<rparr>"

text \<open>
  A clock that shows \<open>t\<close> at every reading, and one that shows 19 at the first two
  readings and 20 from the third on.
\<close>

definition relogio_parado :: "int \<Rightarrow> nat \<Rightarrow> int" where
  "relogio_parado t k = t"

definition relogio_passa_do_fim :: "nat \<Rightarrow> int" where
  "relogio_passa_do_fim k = (if k < 2 then 19 else 20)"

text \<open>
  The example auction after Alice's bid of NaN at time 15, then after Bob's bid of 110,
  and the latter after time 20.
\<close>

definition leilao_nan :: Leilao where
  "leilao_nan =
     leilao_exemplo\<lparr>priv_lances := [\<lparr>participante = 0, valor = NaN\<rparr>], priv_estado := ABERTO\<rparr>"

definition leilao_nan_110 :: Leilao where
  "leilao_nan_110 =
     leilao_exemplo\<lparr>priv_lances :=
         [\<lparr>participante = 0, valor = NaN\<rparr>, \<lparr>participante = 1, valor = Finito 110\<rparr>],
       priv_estado := ABERTO\<rparr>"

definition leilao_nan_110_finalizado :: Leilao where
  "leilao_nan_110_finalizado =
     leilao_nan_110\<lparr>priv_estado := FINALIZADO, priv_ganhador := Some 0\<rparr>"

text \<open>The two bids, proposed one after the other at time 15.\<close>

definition lances_nan_110 :: "((nat \<Rightarrow> int) \<times> pyval) list" where
  "lances_nan_110 =
     [(relogio_parado 15, PyLance \<lparr>participante = 0, valor = NaN\<rparr>),
      (relogio_parado 15, PyLance \<lparr>participante = 1, valor = Finito 110\<rparr>)]"

text \<open>The example auction with the log of Alice's 120, Bob's NaN and Alice's 110.\<close>

definition leilao_120_nan_110 :: Leilao where
  "leilao_120_nan_110 =
     leilao_exemplo\<lparr>priv_lances :=
         [\<lparr>participante = 0, valor = Finito 120\<rparr>, \<lparr>participante = 1, valor = NaN\<rparr>,
          \<lparr>participante = 0, valor = Finito 110\<rparr>],
       priv_estado := ABERTO\<rparr>"

definition lances_120_nan_110 :: "((nat \<Rightarrow> int) \<times> pyval) list" where
  "lances_120_nan_110 =
     [(relogio_parado 15, PyLance \<lparr>participante = 0, valor = Finito 120\<rparr>),
      (relogio_parado 15, PyLance \<lparr>participante = 1, valor = NaN\<rparr>),
      (relogio_parado 15, PyLance \<lparr>participante = 0, valor = Finito 110\<rparr>)]"

text \<open>An \<open>int\<close> too large for a float.\<close>

definition enorme :: int where
  "enorme = 10 ^ 309"

text \<open>The example auction with a minimum of NaN, and renamed, and with aware dates.\<close>

definition leilao_minimo_nan :: Leilao where
  "leilao_minimo_nan = leilao_exemplo\<lparr>lance_minimo := NaN\<rparr>"

definition leilao_renomeado :: Leilao where
  "leilao_renomeado = leilao_exemplo\<lparr>nome := ''Novo''\<rparr>"

definition leilao_aware :: Leilao where
  "leilao_aware = leilao_exemplo\<lparr>data_inicio := Aware 12, data_termino := Aware 22\<rparr>"

section \<open>Basic facts\<close>

subsection \<open>The state derivation\<close>

lemma atualizar_estado_campos:
  "priv_lances (fst (atualizar_estado t l)) = priv_lances l"
  "nome (fst (atualizar_estado t l)) = nome l"
  "lance_minimo (fst (atualizar_estado t l)) = lance_minimo l"
  "data_inicio (fst (atualizar_estado t l)) = data_inicio l"
  "data_termino (fst (atualizar_estado t l)) = data_termino l"
  by (cases "data_inicio l"; cases "data_termino l";
      simp add: atualizar_estado_def dentro_da_janela_def split: option.split)+

lemma atualizar_estado_erro:
  "snd (atualizar_estado t l) = Inl e \<Longrightarrow> fst (atualizar_estado t l) = l"
  by (cases "data_inicio l"; cases "data_termino l")
     (auto simp: atualizar_estado_def dentro_da_janela_def split: option.splits if_splits)

lemma atualizar_estado_finalizado:
  "priv_estado l = FINALIZADO \<Longrightarrow> atualizar_estado t l = (l, Inr ())"
  by (simp add: atualizar_estado_def)

lemma atualizar_estado_naive:
  assumes "data_inicio l = Naive a" and "data_termino l = Naive b"
  shows "atualizar_estado t l =
     (if priv_estado l = FINALIZADO then l
      else if t < a then l\<lparr>priv_estado := INATIVO\<rparr>
      else if t < b then l\<lparr>priv_estado := ABERTO\<rparr>
      else if priv_lances l \<noteq> [] then
        (case maior_lance l of
           Some maior \<Rightarrow> l\<lparr>priv_estado := FINALIZADO, priv_ganhador := Some (participante maior)\<rparr>
         | None \<Rightarrow> l\<lparr>priv_estado := FINALIZADO\<rparr>)
      else l\<lparr>priv_estado := EXPIRADO\<rparr>, Inr ())"
  using assms
  by (auto simp: atualizar_estado_def dentro_da_janela_def split: option.split)

lemma maior_lance_atualizar: "maior_lance (fst (atualizar_estado t l)) = maior_lance l"
  by (simp add: maior_lance_def atualizar_estado_campos)

lemma atualizar_estado_idem:
  "atualizar_estado t (fst (atualizar_estado t l)) = atualizar_estado t l"
  by (cases "data_inicio l"; cases "data_termino l")
     (auto simp: atualizar_estado_def dentro_da_janela_def maior_lance_def
           split: option.split list.split)

lemma ultimo_lance_ultimo:
  "priv_lances l \<noteq> [] \<Longrightarrow> ultimo_lance l = Some (last (priv_lances l))"
  by (simp add: ultimo_lance_def)

lemma estado_eq:
  "estado t l =
     (fst (atualizar_estado t l),
      case snd (atualizar_estado t l) of
        Inl e \<Rightarrow> Inl e
      | Inr u \<Rightarrow> Inr (priv_estado (fst (atualizar_estado t l))))"
  by (simp add: estado_def split_beta split: sum.split)

lemma atualizar_estado_snd:
  "(\<exists>e. snd (atualizar_estado t l) = Inl e) \<or> snd (atualizar_estado t l) = Inr ()"
  by (cases "snd (atualizar_estado t l)") auto

lemma pode_receber_lance_eq:
  "pode_receber_lance t h l p v =
     (fst (atualizar_estado t l),
      case snd (atualizar_estado t l) of
        Inl e \<Rightarrow> Inl e
      | Inr u \<Rightarrow>
          Inr (priv_estado (fst (atualizar_estado t l)) = ABERTO
               \<and> \<not> fl_lt v (lance_minimo l)
               \<and> (priv_lances l = [] \<or>
                    \<not> fl_le v (valor (last (priv_lances l)))
                    \<and> \<not> participante_eq (h p) (h (participante (last (priv_lances l)))))))"
  by (auto simp: pode_receber_lance_def estado_eq Let_def atualizar_estado_campos
           split: sum.split)

subsection \<open>The outcomes of \<open>propor_lance\<close>\<close>

lemma propor_lance_erro_0:
  assumes "snd (atualizar_estado (clk 0) l) = Inl e"
  shows "propor_lance clk arg (h, l) = ((h, l), Inl e)"
  using assms atualizar_estado_erro[OF assms]
  by (simp add: propor_lance_def split_beta)

lemma propor_lance_erro_1:
  assumes "atualizar_estado (clk 0) l = (l0, Inr ())"
    and "snd (atualizar_estado (clk 1) l0) = Inl e"
  shows "propor_lance clk arg (h, l) = ((h, l0), Inl e)"
  using assms atualizar_estado_erro[OF assms(2)]
  by (simp add: propor_lance_def estado_eq split_beta)

lemma propor_lance_nao_aberto:
  assumes "atualizar_estado (clk 0) l = (l0, Inr ())"
    and "atualizar_estado (clk 1) l0 = (l1, Inr ())"
    and "priv_estado l1 \<noteq> ABERTO"
  shows "propor_lance clk arg (h, l) =
     ((h, fst (atualizar_estado (clk 2) l1)),
      case snd (atualizar_estado (clk 2) l1) of
        Inl e \<Rightarrow> Inl e
      | Inr u \<Rightarrow> Inl (LeilaoInvalido (NaoAberto (nome l)
                        (priv_estado (fst (atualizar_estado (clk 2) l1))))))"
proof -
  have n: "nome l1 = nome l"
    using assms(1,2) atualizar_estado_campos(2)[of "clk 0" l] atualizar_estado_campos(2)[of "clk 1" l0]
    by simp
  show ?thesis
    using assms by (simp add: propor_lance_def estado_eq split_beta atualizar_estado_campos n
                         split: sum.split)
qed

lemma propor_lance_tipo:
  assumes "atualizar_estado (clk 0) l = (l0, Inr ())"
    and "atualizar_estado (clk 1) l0 = (l1, Inr ())"
    and "priv_estado l1 = ABERTO"
    and "\<And>lance. arg \<noteq> PyLance lance"
  shows "propor_lance clk arg (h, l) = ((h, l1), Inl (TypeError ObjetoDeLanceInvalido))"
  using assms by (cases arg) (auto simp add: propor_lance_def estado_eq split_beta)

lemma propor_lance_lance:
  assumes "atualizar_estado (clk 0) l = (l0, Inr ())"
    and "atualizar_estado (clk 1) l0 = (l1, Inr ())"
    and "priv_estado l1 = ABERTO"
  shows "propor_lance clk (PyLance lance) (h, l) =
     (let l2 = fst (atualizar_estado (clk 2) l1) in
      case snd (atualizar_estado (clk 2) l1) of
        Inl e \<Rightarrow> ((h, l2), Inl e)
      | Inr u \<Rightarrow>
          if priv_estado l2 = ABERTO
             \<and> \<not> fl_lt (valor lance) (lance_minimo l)
             \<and> (priv_lances l = [] \<or>
                  \<not> fl_le (valor lance) (valor (last (priv_lances l)))
                  \<and> \<not> participante_eq (h (participante lance))
                       (h (participante (last (priv_lances l)))))
          then ((h(participante lance := marcar_como_ofertante (h (participante lance))),
                 l2\<lparr>priv_lances := priv_lances l @ [lance]\<rparr>), Inr ())
          else ((h, l2), Inl (LanceInvalido (nome l) (motivo_rejeicao h l2 lance))))"
proof -
  have c: "nome l1 = nome l" "priv_lances l1 = priv_lances l" "lance_minimo l1 = lance_minimo l"
    using assms(1,2) atualizar_estado_campos[of "clk 0" l] atualizar_estado_campos[of "clk 1" l0]
    by simp_all
  show ?thesis
    using assms
    by (simp add: propor_lance_def estado_eq split_beta pode_receber_lance_eq Let_def
          atualizar_estado_campos c split: sum.split)
qed

lemma propor_lance_casos:
  assumes "propor_lance clk arg (h, l) = ((h', l'), r)"
  defines "d0 \<equiv> fst (atualizar_estado (clk 0) l)"
  defines "d1 \<equiv> fst (atualizar_estado (clk 1) d0)"
  defines "d2 \<equiv> fst (atualizar_estado (clk 2) d1)"
  shows "(h' = h \<and> (\<exists>e. r = Inl e) \<and> (l' = d0 \<or> l' = d1 \<or> l' = d2))
         \<or> (\<exists>lance. arg = PyLance lance \<and> r = Inr ()
              \<and> priv_estado d2 = ABERTO
              \<and> \<not> fl_lt (valor lance) (lance_minimo l)
              \<and> (priv_lances l = [] \<or>
                   \<not> fl_le (valor lance) (valor (last (priv_lances l)))
                   \<and> \<not> participante_eq (h (participante lance))
                        (h (participante (last (priv_lances l)))))
              \<and> l' = d2\<lparr>priv_lances := priv_lances l @ [lance]\<rparr>
              \<and> h' = h(participante lance := marcar_como_ofertante (h (participante lance))))"
proof -
  consider (e0) e where "snd (atualizar_estado (clk 0) l) = Inl e"
    | (ok0) "snd (atualizar_estado (clk 0) l) = Inr ()"
    using atualizar_estado_snd by blast
  then show ?thesis
  proof cases
    case e0
    from propor_lance_erro_0[where clk=clk and arg=arg and h=h, OF e0] assms(1)
      atualizar_estado_erro[OF e0]
    have "h' = h" "l' = d0" "r = Inl e" by (auto simp: d0_def)
    then show ?thesis by blast
  next
    case ok0
    then have a0: "atualizar_estado (clk 0) l = (d0, Inr ())"
      by (simp add: d0_def prod_eq_iff)
    consider (e1) e where "snd (atualizar_estado (clk 1) d0) = Inl e"
      | (ok1) "snd (atualizar_estado (clk 1) d0) = Inr ()"
      using atualizar_estado_snd by blast
    then show ?thesis
    proof cases
      case e1
      from propor_lance_erro_1[where clk=clk and arg=arg and h=h, OF a0 e1] assms(1)
      have "h' = h" "l' = d0" "r = Inl e" by auto
      then show ?thesis by blast
    next
      case ok1
      then have a1: "atualizar_estado (clk 1) d0 = (d1, Inr ())"
        by (simp add: d1_def prod_eq_iff)
      show ?thesis
      proof (cases "priv_estado d1 = ABERTO")
        case False
        note pn = propor_lance_nao_aberto[where clk=clk and arg=arg and h=h, OF a0 a1 False]
        consider (e2) e where "snd (atualizar_estado (clk 2) d1) = Inl e"
          | (ok2) "snd (atualizar_estado (clk 2) d1) = Inr ()"
          using atualizar_estado_snd by blast
        then show ?thesis
        proof cases
          case e2
          with pn have "propor_lance clk arg (h, l) = ((h, d2), Inl e)"
            by (simp add: d2_def)
          with assms(1) have "h' = h" "l' = d2" "r = Inl e" by auto
          then show ?thesis by blast
        next
          case ok2
          with pn have "propor_lance clk arg (h, l)
              = ((h, d2), Inl (LeilaoInvalido (NaoAberto (nome l) (priv_estado d2))))"
            by (simp add: d2_def)
          with assms(1) have "h' = h" "l' = d2"
            "r = Inl (LeilaoInvalido (NaoAberto (nome l) (priv_estado d2)))" by auto
          then show ?thesis by blast
        qed
      next
        case aberto: True
        show ?thesis
        proof (cases "\<exists>lance. arg = PyLance lance")
          case False
          then have "\<And>lance. arg \<noteq> PyLance lance" by blast
          from propor_lance_tipo[where clk=clk and arg=arg and h=h, OF a0 a1 aberto this] assms(1)
          have "h' = h" "l' = d1" "r = Inl (TypeError ObjetoDeLanceInvalido)" by auto
          then show ?thesis by blast
        next
          case True
          then obtain lance where arg: "arg = PyLance lance" by blast
          note pl = propor_lance_lance[where clk=clk and lance=lance and h=h, OF a0 a1 aberto]
          consider (e2) e where "snd (atualizar_estado (clk 2) d1) = Inl e"
            | (ok2) "snd (atualizar_estado (clk 2) d1) = Inr ()"
            using atualizar_estado_snd by blast
          then show ?thesis
          proof cases
            case e2
            with pl arg have "propor_lance clk arg (h, l) = ((h, d2), Inl e)"
              by (simp add: Let_def d2_def)
            with assms(1) have "h' = h" "l' = d2" "r = Inl e" by auto
            then show ?thesis by blast
          next
            case ok2
            show ?thesis
            proof (cases "priv_estado d2 = ABERTO
                \<and> \<not> fl_lt (valor lance) (lance_minimo l)
                \<and> (priv_lances l = [] \<or>
                     \<not> fl_le (valor lance) (valor (last (priv_lances l)))
                     \<and> \<not> participante_eq (h (participante lance))
                          (h (participante (last (priv_lances l)))))")
              case False
              with pl arg ok2 have "propor_lance clk arg (h, l)
                  = ((h, d2), Inl (LanceInvalido (nome l) (motivo_rejeicao h d2 lance)))"
                by (simp add: Let_def d2_def)
              with assms(1) have "h' = h" "l' = d2"
                "r = Inl (LanceInvalido (nome l) (motivo_rejeicao h d2 lance))" by auto
              then show ?thesis by blast
            next
              case True
              with pl arg ok2 have "propor_lance clk arg (h, l)
                  = ((h(participante lance := marcar_como_ofertante (h (participante lance))),
                      d2\<lparr>priv_lances := priv_lances l @ [lance]\<rparr>), Inr ())"
                by (simp add: Let_def d2_def)
              with assms(1) have
                "h' = h(participante lance := marcar_como_ofertante (h (participante lance)))"
                "l' = d2\<lparr>priv_lances := priv_lances l @ [lance]\<rparr>" "r = Inr ()"
                by auto
              then show ?thesis using True arg by blast
            qed
          qed
        qed
      qed
    qed
  qed
qed

lemma nao_fl_lt:
  "a \<noteq> NaN \<Longrightarrow> b \<noteq> NaN \<Longrightarrow> \<not> fl_lt a b \<longleftrightarrow> fl_le b a"
  by (auto simp: fl_lt_def fl_le_def)

lemma nao_fl_le:
  "a \<noteq> NaN \<Longrightarrow> b \<noteq> NaN \<Longrightarrow> \<not> fl_le a b \<longleftrightarrow> fl_lt b a"
  by (auto simp: fl_lt_def fl_le_def)

text \<open>
  When the state derivations of a call return and the two states that the call tests,
  the one in \<open>propor_lance\<close> and the one in \<open>_pode_receber_lance\<close>, are \<open>ABERTO\<close>, a
  well-formed bid is admitted or rejected with one of the three specific reasons, in
  their order of precedence, and never with the default reason.
\<close>

lemma propor_lance_estados_abertos:
  assumes "atualizar_estado (clk 0) l = (l0, Inr ())"
    and "atualizar_estado (clk 1) l0 = (l1, Inr ())"
    and "atualizar_estado (clk 2) l1 = (l2, Inr ())"
    and "priv_estado l1 = ABERTO" and "priv_estado l2 = ABERTO"
  shows "propor_lance clk (PyLance lance) (h, l) =
     (if fl_lt (valor lance) (lance_minimo l) then
        ((h, l2), Inl (LanceInvalido (nome l) (AbaixoDoMinimo (valor lance) (lance_minimo l))))
      else if priv_lances l = [] then
        ((h(participante lance := marcar_como_ofertante (h (participante lance))),
          l2\<lparr>priv_lances := [lance]\<rparr>), Inr ())
      else if fl_le (valor lance) (valor (last (priv_lances l))) then
        ((h, l2),
         Inl (LanceInvalido (nome l)
               (NaoMaiorQueUltimo (valor lance) (valor (last (priv_lances l))))))
      else if participante_eq (h (participante lance)) (h (participante (last (priv_lances l)))) then
        ((h, l2), Inl (LanceInvalido (nome l) DoisLancesSeguidos))
      else
        ((h(participante lance := marcar_como_ofertante (h (participante lance))),
          l2\<lparr>priv_lances := priv_lances l @ [lance]\<rparr>), Inr ()))"
proof -
  have c: "priv_lances l2 = priv_lances l" "lance_minimo l2 = lance_minimo l"
    using assms(1,2,3) atualizar_estado_campos[of "clk 0" l]
      atualizar_estado_campos[of "clk 1" l0] atualizar_estado_campos[of "clk 2" l1]
    by simp_all
  show ?thesis
    unfolding propor_lance_lance[where clk=clk, OF assms(1,2,4)]
    using assms(3,5) by (auto simp: Let_def motivo_rejeicao_def c)
qed

subsection \<open>Conversion of an \<open>int\<close> to a float\<close>

lemma arredondar_pequeno: "n < 2 ^ 53 \<Longrightarrow> arredondar n = n"
  using bitlen_le_iff_power[of n 53] by (simp add: arredondar_def)

lemma float_de_int_pequeno:
  assumes "\<bar>i\<bar> < 2 ^ 53"
  shows "float_de_int i = Inr (Finito (of_int i))"
proof -
  have "arredondar \<bar>i\<bar> = \<bar>i\<bar>" using assms by (rule arredondar_pequeno)
  moreover have "\<bar>i\<bar> < 2 ^ 1024" using assms by (rule less_le_trans) simp
  moreover have "sgn i * \<bar>i\<bar> = i" by (simp add: mult_sgn_abs)
  ultimately show ?thesis by (simp add: float_de_int_def)
qed

lemma arredondar_2_53_mais_1: "arredondar (2 ^ 53 + 1) = 2 ^ 53"
  by code_simp

lemma arredondar_10_309: "2 ^ 1024 \<le> arredondar (10 ^ 309)"
  by code_simp

lemma float_de_int_arredonda: "float_de_int (2 ^ 53 + 1) = Inr (Finito (2 ^ 53))"
  using arredondar_2_53_mais_1 by (simp add: float_de_int_def)

lemma float_de_int_overflow: "float_de_int enorme = Inl OverflowError"
  using arredondar_10_309 by (simp add: float_de_int_def enorme_def)

lemma enorme_positivo: "\<not> enorme \<le> 0"
  by (simp add: enorme_def)

subsection \<open>The example auctions\<close>

lemma Leilao_init_exemplo:
  "Leilao_init (PyStr ''Console'') (PyInt 100) (PyDatetime (Naive 10)) (PyDatetime (Naive 20)) 5
     = Inr leilao_exemplo"
  by (simp add: Leilao_init_def validar_def float_de_int_pequeno
        atualizar_estado_naive[of _ 10 20] leilao_exemplo_def)

lemma atualizar_um_lance_20: "atualizar_estado 20 leilao_um_lance = (leilao_finalizado, Inr ())"
  by (simp add: atualizar_estado_naive[of _ 10 20] maior_lance_def leilao_um_lance_def
        leilao_exemplo_def leilao_finalizado_def)

lemma propor_lance_exemplo:
  "propor_lance (relogio_parado 15) (PyLance \<lparr>participante = 0, valor = Finito 110\<rparr>)
      (heap_exemplo, leilao_exemplo)
     = ((heap_exemplo(0 := marcar_como_ofertante alice), leilao_um_lance), Inr ())"
  by (simp add: propor_lance_def pode_receber_lance_def estado_def
        atualizar_estado_naive[of _ 10 20] relogio_parado_def fl_lt_def
        leilao_exemplo_def leilao_um_lance_def heap_exemplo_def)

section \<open>The claims\<close>

subsection \<open>State derivation\<close>

text \<open>
  C8. Running the state derivation twice in succession with the same clock reading
  leaves the auction, hence its state, as one run leaves it, with the same outcome
  (it returns, or it raises the same exception), and neither run changes the bid log.
\<close>

theorem atualizar_estado_idempotente:
  "atualizar_estado agora (fst (atualizar_estado agora l)) = atualizar_estado agora l
   \<and> priv_estado (fst (atualizar_estado agora (fst (atualizar_estado agora l))))
       = priv_estado (fst (atualizar_estado agora l))
   \<and> priv_lances (fst (atualizar_estado agora l)) = priv_lances l
   \<and> priv_lances (fst (atualizar_estado agora (fst (atualizar_estado agora l)))) = priv_lances l"
  by (simp add: atualizar_estado_idem atualizar_estado_campos)

theorem atualizar_estado_idempotente_witness:
  "atualizar_estado 20 (fst (atualizar_estado 20 leilao_um_lance)) = (leilao_finalizado, Inr ())
   \<and> atualizar_estado 20 leilao_um_lance = (leilao_finalizado, Inr ())
   \<and> priv_lances leilao_finalizado = priv_lances leilao_um_lance"
  using atualizar_estado_idempotente[of 20 leilao_um_lance]
  by (simp add: atualizar_um_lance_20)

subsection \<open>Bid admission\<close>

text \<open>
  C5. Let the three state derivations of a call of \<open>propor_lance\<close> return, as they do for
  every auction whose dates are naive. When the state that the call derives and tests
  is not \<open>ABERTO\<close>, the call raises \<open>LeilaoInvalido\<close> for every argument, a well-formed bid or
  not, so the test of the state comes before the \<open>TypeError\<close> of an argument that is not
  a \<open>Lance\<close>. The message names the auction and the state in which the call leaves it;
  with the clock reading of the message equal to the one of the test, that state is the
  one tested. Neither the log nor the store of participants changes.
\<close>

theorem propor_lance_fora_de_aberto:
  assumes "atualizar_estado (clk 0) l = (l0, Inr ())"
    and "atualizar_estado (clk 1) l0 = (l1, Inr ())"
    and "atualizar_estado (clk 2) l1 = (l2, Inr ())"
    and "priv_estado l1 \<noteq> ABERTO"
  shows "propor_lance clk arg (h, l)
           = ((h, l2), Inl (LeilaoInvalido (NaoAberto (nome l) (priv_estado l2))))
         \<and> priv_lances l2 = priv_lances l
         \<and> (clk 2 = clk 1 \<longrightarrow> priv_estado l2 \<noteq> ABERTO)"
proof -
  have p: "propor_lance clk arg (h, l)
           = ((h, l2), Inl (LeilaoInvalido (NaoAberto (nome l) (priv_estado l2))))"
    using propor_lance_nao_aberto[where clk=clk and arg=arg and h=h, OF assms(1,2,4)] assms(3)
    by simp
  have "priv_lances l0 = priv_lances l" "priv_lances l1 = priv_lances l0"
    "priv_lances l2 = priv_lances l1"
    using assms(1,2,3) atualizar_estado_campos(1)[of "clk 0" l]
      atualizar_estado_campos(1)[of "clk 1" l0] atualizar_estado_campos(1)[of "clk 2" l1]
    by simp_all
  then have q: "priv_lances l2 = priv_lances l" by simp
  have "l2 = l1" if "clk 2 = clk 1"
    using that assms(2,3) atualizar_estado_idem[of "clk 1" l0] by simp
  with assms(4) have "clk 2 = clk 1 \<longrightarrow> priv_estado l2 \<noteq> ABERTO" by auto
  with p q show ?thesis by simp
qed

theorem propor_lance_fora_de_aberto_witness:
  "atualizar_estado (relogio_parado 5 0) leilao_exemplo = (leilao_exemplo, Inr ())
   \<and> priv_estado leilao_exemplo \<noteq> ABERTO
   \<and> propor_lance (relogio_parado 5) (PyLance \<lparr>participante = 1, valor = Finito 150\<rparr>)
        (heap_exemplo, leilao_exemplo)
       = ((heap_exemplo, leilao_exemplo), Inl (LeilaoInvalido (NaoAberto ''Console'' INATIVO)))
   \<and> propor_lance (relogio_parado 25) PyOutro (heap_exemplo, leilao_um_lance)
       = ((heap_exemplo, leilao_finalizado), Inl (LeilaoInvalido (NaoAberto ''Console'' FINALIZADO)))
   \<and> propor_lance (relogio_parado 25) (PyStr ''lance'') (heap_exemplo, leilao_exemplo)
       = ((heap_exemplo, leilao_exemplo\<lparr>priv_estado := EXPIRADO\<rparr>),
          Inl (LeilaoInvalido (NaoAberto ''Console'' EXPIRADO)))"
proof -
  have a: "atualizar_estado (relogio_parado 5 k) leilao_exemplo = (leilao_exemplo, Inr ())" for k
    by (simp add: atualizar_estado_naive[of _ 10 20] relogio_parado_def leilao_exemplo_def)
  have b: "atualizar_estado (relogio_parado 25 k) leilao_um_lance = (leilao_finalizado, Inr ())"
    "atualizar_estado (relogio_parado 25 k) leilao_finalizado = (leilao_finalizado, Inr ())" for k
    by (simp_all add: atualizar_estado_naive[of _ 10 20] relogio_parado_def maior_lance_def
          leilao_um_lance_def leilao_exemplo_def leilao_finalizado_def)
  have c: "atualizar_estado (relogio_parado 25 k) leilao_exemplo
             = (leilao_exemplo\<lparr>priv_estado := EXPIRADO\<rparr>, Inr ())"
    "atualizar_estado (relogio_parado 25 k) (leilao_exemplo\<lparr>priv_estado := EXPIRADO\<rparr>)
             = (leilao_exemplo\<lparr>priv_estado := EXPIRADO\<rparr>, Inr ())" for k
    by (simp_all add: atualizar_estado_naive[of _ 10 20] relogio_parado_def leilao_exemplo_def)
  have n: "priv_estado leilao_exemplo \<noteq> ABERTO" "priv_estado leilao_finalizado \<noteq> ABERTO"
    "priv_estado (leilao_exemplo\<lparr>priv_estado := EXPIRADO\<rparr>) \<noteq> ABERTO"
    "nome leilao_um_lance = ''Console''" "nome leilao_exemplo = ''Console''"
    "priv_estado leilao_exemplo = INATIVO" "priv_estado leilao_finalizado = FINALIZADO"
    by (simp_all add: leilao_exemplo_def leilao_um_lance_def leilao_finalizado_def)
  from propor_lance_fora_de_aberto[where clk="relogio_parado 5" and h=heap_exemplo
        and arg="PyLance \<lparr>participante = 1, valor = Finito 150\<rparr>", OF a a a n(1)]
    propor_lance_fora_de_aberto[where clk="relogio_parado 25" and h=heap_exemplo
        and arg=PyOutro, OF b(1) b(2) b(2) n(2)]
    propor_lance_fora_de_aberto[where clk="relogio_parado 25" and h=heap_exemplo
        and arg="PyStr ''lance''", OF c(1) c(2) c(2) n(3)]
  show ?thesis using a[of 0] n by simp
qed

text \<open>
  C9. Whatever exception \<open>propor_lance\<close> raises, the call leaves the bid log and the whole
  store of participants, the flag of the proposed bidder in particular, as they were.
  When it returns, the argument is a \<open>Lance\<close> that passed every check: the auction is
  \<open>ABERTO\<close>, the amount is not below the minimum and, when there is a last bid, is not
  \<open><=\<close> its amount and comes from another bidder; the bid is appended to the log, and its
  bidder, and no other participant, is marked. When none of the amounts compared is NaN,
  the amount is at least the minimum and greater than the last bid's.
\<close>

theorem propor_lance_efeitos:
  assumes "propor_lance clk arg (h, l) = ((h', l'), r)"
  shows "case r of
           Inl e \<Rightarrow> priv_lances l' = priv_lances l \<and> h' = h
         | Inr u \<Rightarrow>
             (\<exists>lance. arg = PyLance lance
                \<and> priv_lances l' = priv_lances l @ [lance]
                \<and> h' = h(participante lance := marcar_como_ofertante (h (participante lance)))
                \<and> priv_estado l' = ABERTO
                \<and> \<not> fl_lt (valor lance) (lance_minimo l)
                \<and> (valor lance \<noteq> NaN \<and> lance_minimo l \<noteq> NaN \<longrightarrow>
                      fl_le (lance_minimo l) (valor lance))
                \<and> (priv_lances l = [] \<or>
                     \<not> fl_le (valor lance) (valor (last (priv_lances l)))
                     \<and> (valor lance \<noteq> NaN \<and> valor (last (priv_lances l)) \<noteq> NaN \<longrightarrow>
                           fl_lt (valor (last (priv_lances l))) (valor lance))
                     \<and> \<not> participante_eq (h (participante lance))
                          (h (participante (last (priv_lances l))))))"
proof (cases r)
  case (Inl e)
  with propor_lance_casos[OF assms] show ?thesis
    by (auto simp: atualizar_estado_campos)
next
  case (Inr u)
  with propor_lance_casos[OF assms] obtain lance where
    "arg = PyLance lance" "priv_estado l' = ABERTO"
    "priv_lances l' = priv_lances l @ [lance]"
    "h' = h(participante lance := marcar_como_ofertante (h (participante lance)))"
    "\<not> fl_lt (valor lance) (lance_minimo l)"
    "priv_lances l = [] \<or>
       \<not> fl_le (valor lance) (valor (last (priv_lances l)))
       \<and> \<not> participante_eq (h (participante lance)) (h (participante (last (priv_lances l))))"
    by auto
  then show ?thesis using Inr by (auto simp: nao_fl_lt nao_fl_le)
qed

theorem propor_lance_efeitos_witness:
  "propor_lance (relogio_parado 15) (PyLance \<lparr>participante = 0, valor = Finito 120\<rparr>)
      (heap_exemplo, leilao_um_lance)
     = ((heap_exemplo, leilao_um_lance), Inl (LanceInvalido ''Console'' DoisLancesSeguidos))
   \<and> priv_possui_lances (heap_exemplo 0) = False
   \<and> propor_lance (relogio_parado 15) (PyLance \<lparr>participante = 0, valor = Finito 110\<rparr>)
        (heap_exemplo, leilao_exemplo)
     = ((heap_exemplo(0 := marcar_como_ofertante alice), leilao_um_lance), Inr ())
   \<and> priv_possui_lances ((heap_exemplo(0 := marcar_como_ofertante alice)) 0) = True"
  using propor_lance_efeitos[of "relogio_parado 15" "PyLance \<lparr>participante = 0, valor = Finito 120\<rparr>"
      heap_exemplo leilao_um_lance heap_exemplo leilao_um_lance
      "Inl (LanceInvalido ''Console'' DoisLancesSeguidos)"]
    propor_lance_exemplo
  by (simp add: propor_lance_def pode_receber_lance_def estado_def
        atualizar_estado_naive[of _ 10 20] relogio_parado_def fl_lt_def fl_le_def
        motivo_rejeicao_def participante_eq_def marcar_como_ofertante_def
        leilao_exemplo_def leilao_um_lance_def heap_exemplo_def alice_def)

subsection \<open>Bids whose amount is NaN\<close>

text \<open>
  \<open>Lance.__init__\<close> rejects an amount only when \<open>valor <= 0\<close>, which is false of NaN, so
  a bid of NaN can be built; \<open>Leilao.__init__\<close> likewise accepts a minimum of NaN. Every
  comparison of \<open>_pode_receber_lance\<close> with NaN is false, so such a bid is admitted, and
  so is the next bid whatever its amount.
\<close>

lemma Lance_init_nan:
  "Lance_init (PyParticipante 0) (PyFloat NaN) = Inr \<lparr>participante = 0, valor = NaN\<rparr>"
  by (simp add: Lance_init_def fl_le_def)

lemma atualizar_15:
  "atualizar_estado (relogio_parado 15 k) leilao_exemplo
     = (leilao_exemplo\<lparr>priv_estado := ABERTO\<rparr>, Inr ())"
  "atualizar_estado (relogio_parado 15 k) (leilao_exemplo\<lparr>priv_estado := ABERTO\<rparr>)
     = (leilao_exemplo\<lparr>priv_estado := ABERTO\<rparr>, Inr ())"
  "atualizar_estado (relogio_parado 15 k) leilao_nan = (leilao_nan, Inr ())"
  "atualizar_estado (relogio_parado 15 k) leilao_um_lance = (leilao_um_lance, Inr ())"
  by (simp_all add: atualizar_estado_naive[of _ 10 20] relogio_parado_def leilao_exemplo_def
        leilao_nan_def leilao_um_lance_def)

lemma propor_lance_nan:
  "propor_lance (relogio_parado 15) (PyLance \<lparr>participante = 0, valor = NaN\<rparr>)
      (heap_exemplo, leilao_exemplo)
     = ((heap_exemplo(0 := marcar_como_ofertante alice), leilao_nan), Inr ())"
proof -
  have e: "priv_estado (leilao_exemplo\<lparr>priv_estado := ABERTO\<rparr>) = ABERTO" by simp
  show ?thesis
    unfolding propor_lance_lance[where clk="relogio_parado 15", OF atualizar_15(1) atualizar_15(2) e]
      atualizar_15
    by (simp add: fl_lt_def leilao_exemplo_def leilao_nan_def heap_exemplo_def)
qed

lemma propor_lance_nan_110:
  "propor_lance (relogio_parado 15) (PyLance \<lparr>participante = 1, valor = Finito 110\<rparr>)
      (heap_exemplo(0 := marcar_como_ofertante alice), leilao_nan)
     = ((heap_exemplo(0 := marcar_como_ofertante alice, 1 := marcar_como_ofertante bob),
         leilao_nan_110), Inr ())"
proof -
  have e: "priv_estado leilao_nan = ABERTO" by (simp add: leilao_nan_def)
  show ?thesis
    unfolding propor_lance_lance[where clk="relogio_parado 15", OF atualizar_15(3) atualizar_15(3) e]
      atualizar_15
    by (simp add: fl_lt_def fl_le_def participante_eq_def marcar_como_ofertante_def
          leilao_exemplo_def leilao_nan_def leilao_nan_110_def heap_exemplo_def alice_def bob_def)
qed

lemma propor_lances_nan_110:
  "propor_lances lances_nan_110 (heap_exemplo, leilao_exemplo)
     = (heap_exemplo(0 := marcar_como_ofertante alice, 1 := marcar_como_ofertante bob),
        leilao_nan_110)"
  by (simp only: lances_nan_110_def propor_lances.simps fst_conv snd_conv
        propor_lance_nan propor_lance_nan_110)

lemma alcancavel_leilao_exemplo: "alcancavel leilao_exemplo"
  using Leilao_init_exemplo by (rule alcancavel.criado)

lemma alcancavel_leilao_nan_110: "alcancavel leilao_nan_110"
proof -
  have "alcancavel leilao_nan"
    using alcancavel_leilao_exemplo propor_lance_nan by (rule alcancavel.proposto)
  then show ?thesis using propor_lance_nan_110 by (rule alcancavel.proposto)
qed

lemma maior_lance_nan_110:
  "maior_lance leilao_nan_110 = Some \<lparr>participante = 0, valor = NaN\<rparr>"
  by (simp add: maior_lance_def leilao_nan_110_def leilao_exemplo_def fl_lt_def)

lemma menor_lance_nan_110:
  "menor_lance leilao_nan_110 = Some \<lparr>participante = 0, valor = NaN\<rparr>"
  by (simp add: menor_lance_def leilao_nan_110_def leilao_exemplo_def fl_lt_def)

lemma atualizar_nan_110:
  "t \<ge> 20 \<Longrightarrow> atualizar_estado t leilao_nan_110 = (leilao_nan_110_finalizado, Inr ())"
  using maior_lance_nan_110
  by (simp add: atualizar_estado_naive[of _ 10 20] leilao_nan_110_def leilao_exemplo_def
        leilao_nan_110_finalizado_def)

lemma atualizar_15_b:
  "atualizar_estado (relogio_parado 15 k)
      (leilao_exemplo\<lparr>priv_lances := bs, priv_estado := ABERTO\<rparr>)
     = (leilao_exemplo\<lparr>priv_lances := bs, priv_estado := ABERTO\<rparr>, Inr ())"
  by (simp add: atualizar_estado_naive[of _ 10 20] relogio_parado_def leilao_exemplo_def)

lemma propor_lances_120_nan_110:
  "propor_lances lances_120_nan_110 (heap_exemplo, leilao_exemplo)
     = (heap_exemplo(0 := marcar_como_ofertante alice, 1 := marcar_como_ofertante bob,
                     0 := marcar_como_ofertante (marcar_como_ofertante alice)),
        leilao_120_nan_110)"
proof -
  let ?h1 = "heap_exemplo(0 := marcar_como_ofertante alice)"
  let ?h2 = "?h1(1 := marcar_como_ofertante bob)"
  let ?l1 = "leilao_exemplo\<lparr>priv_lances := [\<lparr>participante = 0, valor = Finito 120\<rparr>],
               priv_estado := ABERTO\<rparr>"
  let ?l2 = "leilao_exemplo\<lparr>priv_lances :=
               [\<lparr>participante = 0, valor = Finito 120\<rparr>, \<lparr>participante = 1, valor = NaN\<rparr>],
               priv_estado := ABERTO\<rparr>"
  have e: "priv_estado (leilao_exemplo\<lparr>priv_estado := ABERTO\<rparr>) = ABERTO"
    "priv_estado ?l1 = ABERTO" "priv_estado ?l2 = ABERTO" by simp_all
  have p1: "propor_lance (relogio_parado 15) (PyLance \<lparr>participante = 0, valor = Finito 120\<rparr>)
      (heap_exemplo, leilao_exemplo) = ((?h1, ?l1), Inr ())"
    unfolding propor_lance_lance[where clk="relogio_parado 15", OF atualizar_15(1) atualizar_15(2) e(1)]
      atualizar_15
    by (simp add: fl_lt_def leilao_exemplo_def heap_exemplo_def)
  have p2: "propor_lance (relogio_parado 15) (PyLance \<lparr>participante = 1, valor = NaN\<rparr>)
      (?h1, ?l1) = ((?h2, ?l2), Inr ())"
    unfolding propor_lance_lance[where clk="relogio_parado 15", OF atualizar_15_b atualizar_15_b e(2)]
      atualizar_15_b
    by (simp add: fl_lt_def fl_le_def participante_eq_def marcar_como_ofertante_def
          leilao_exemplo_def heap_exemplo_def alice_def bob_def)
  have p3: "propor_lance (relogio_parado 15) (PyLance \<lparr>participante = 0, valor = Finito 110\<rparr>)
      (?h2, ?l2) = ((?h2(0 := marcar_como_ofertante (marcar_como_ofertante alice)),
                     leilao_120_nan_110), Inr ())"
    unfolding propor_lance_lance[where clk="relogio_parado 15", OF atualizar_15_b atualizar_15_b e(3)]
      atualizar_15_b
    by (simp add: fl_lt_def fl_le_def participante_eq_def marcar_como_ofertante_def
          leilao_exemplo_def leilao_120_nan_110_def heap_exemplo_def alice_def bob_def)
  show ?thesis
    by (simp only: lances_120_nan_110_def propor_lances.simps fst_conv snd_conv p1 p2 p3)
qed

lemma nan_nao_ordenado:
  assumes "b \<in> set ys" and "valor b = NaN" and "2 \<le> length ys"
  shows "\<not> sorted_wrt (\<lambda>a b. fl_le (valor a) (valor b)) ys"
proof
  assume s: "sorted_wrt (\<lambda>a b. fl_le (valor a) (valor b)) ys"
  from assms(1) obtain k where k: "k < length ys" "ys ! k = b" by (auto simp: in_set_conv_nth)
  show False
  proof (cases "k = 0")
    case True
    with k assms(3) s have "fl_le (valor (ys ! 0)) (valor (ys ! 1))"
      by (auto simp: sorted_wrt_iff_nth_less)
    with True k assms(2) show False by (simp add: fl_le_def)
  next
    case False
    with k s have "fl_le (valor (ys ! 0)) (valor (ys ! k))"
      by (auto simp: sorted_wrt_iff_nth_less)
    with k assms(2) show False by (simp add: fl_le_def)
  qed
qed

subsection \<open>State derivation and winner\<close>

text \<open>
  C1. The claim fails at the end of the window of the auction that admitted Alice's bid
  of NaN and then Bob's bid of 110 (both through \<open>propor_lance\<close>): the derivation at
  time 20 sets the state to \<open>FINALIZADO\<close> and the winner to Alice, reference \<open>0\<close>, because
  \<open>max\<close> keeps the first bid when no later amount compares greater. The bid of maximum
  amount is Bob's, the only one with an amount.
\<close>

theorem atualizar_estado_ganhador_nan:
  "propor_lances lances_nan_110 (heap_exemplo, leilao_exemplo)
     = (heap_exemplo(0 := marcar_como_ofertante alice, 1 := marcar_como_ofertante bob),
        leilao_nan_110)
   \<and> priv_lances leilao_nan_110
       = [\<lparr>participante = 0, valor = NaN\<rparr>, \<lparr>participante = 1, valor = Finito 110\<rparr>]
   \<and> priv_estado leilao_nan_110 = ABERTO
   \<and> atualizar_estado 20 leilao_nan_110 = (leilao_nan_110_finalizado, Inr ())
   \<and> priv_estado leilao_nan_110_finalizado = FINALIZADO
   \<and> priv_ganhador leilao_nan_110_finalizado = Some 0"
  by (simp add: propor_lances_nan_110 atualizar_nan_110)
     (simp add: leilao_nan_110_def leilao_nan_110_finalizado_def leilao_exemplo_def)

text \<open>
  C2. The claim fails for the same auction, which the interface produces: the query
  \<open>ganhador\<close> at time 25 finds the state \<open>FINALIZADO\<close> and returns Alice, reference \<open>0\<close>,
  whose amount is NaN, and not Bob, the bidder of the bid of maximum amount.
\<close>

theorem ganhador_nan:
  "alcancavel leilao_nan_110
   \<and> ganhador 25 leilao_nan_110 = (leilao_nan_110_finalizado, Inr (Some 0))
   \<and> priv_estado leilao_nan_110_finalizado = FINALIZADO
   \<and> priv_lances leilao_nan_110_finalizado
       = [\<lparr>participante = 0, valor = NaN\<rparr>, \<lparr>participante = 1, valor = Finito 110\<rparr>]"
  by (simp add: alcancavel_leilao_nan_110 ganhador_def estado_def atualizar_nan_110)
     (simp add: leilao_nan_110_def leilao_nan_110_finalizado_def leilao_exemplo_def)

text \<open>
  C10. The claim fails for the same auction, all of whose bids were admitted through
  \<open>propor_lance\<close>: the highest bid that \<open>maior_lance\<close> returns is Alice's first bid and not
  the last bid of the log, Bob's, and the winner at finalization is Alice.
\<close>

theorem maior_lance_nao_ultimo:
  "alcancavel leilao_nan_110
   \<and> maior_lance leilao_nan_110 = Some \<lparr>participante = 0, valor = NaN\<rparr>
   \<and> last (priv_lances leilao_nan_110) = \<lparr>participante = 1, valor = Finito 110\<rparr>
   \<and> priv_ganhador (fst (atualizar_estado 20 leilao_nan_110)) = Some 0"
  by (simp add: alcancavel_leilao_nan_110 maior_lance_nan_110 atualizar_nan_110)
     (simp add: leilao_nan_110_def leilao_nan_110_finalizado_def leilao_exemplo_def)

subsection \<open>Queries on the bid log\<close>

text \<open>
  C7. The claim fails on logs that \<open>propor_lance\<close> admits. For the log of Alice's NaN and
  Bob's 110, \<open>maior_lance\<close> and \<open>menor_lance\<close> both return Alice's bid, whose amount is
  neither the maximum nor the minimum: 110 compares neither greater nor smaller than NaN.
  For the log of Alice's 120, Bob's NaN and Alice's 110, the log itself is a possible result of \<open>lances\<close>, with 120 before 110, and no possible result is ascending
  by amount.
\<close>

theorem consultas_com_nan:
  "propor_lances lances_nan_110 (heap_exemplo, leilao_exemplo)
     = (heap_exemplo(0 := marcar_como_ofertante alice, 1 := marcar_como_ofertante bob),
        leilao_nan_110)
   \<and> maior_lance leilao_nan_110 = Some \<lparr>participante = 0, valor = NaN\<rparr>
   \<and> menor_lance leilao_nan_110 = Some \<lparr>participante = 0, valor = NaN\<rparr>
   \<and> \<not> fl_lt NaN (Finito 110) \<and> \<not> fl_lt (Finito 110) NaN
   \<and> snd (propor_lances lances_120_nan_110 (heap_exemplo, leilao_exemplo)) = leilao_120_nan_110
   \<and> lances leilao_120_nan_110
        [\<lparr>participante = 0, valor = Finito 120\<rparr>, \<lparr>participante = 1, valor = NaN\<rparr>,
         \<lparr>participante = 0, valor = Finito 110\<rparr>]
   \<and> \<not> (\<exists>ys. lances leilao_120_nan_110 ys
              \<and> sorted_wrt (\<lambda>a b. fl_le (valor a) (valor b)) ys)"
proof -
  have log: "priv_lances leilao_120_nan_110
      = [\<lparr>participante = 0, valor = Finito 120\<rparr>, \<lparr>participante = 1, valor = NaN\<rparr>,
         \<lparr>participante = 0, valor = Finito 110\<rparr>]"
    by (simp add: leilao_120_nan_110_def leilao_exemplo_def)
  have perm: "mset ys = mset (priv_lances leilao_120_nan_110)"
    if "lances leilao_120_nan_110 ys" for ys
    using that by (simp add: lances_def py_sorted_def log)
  have "\<not> sorted_wrt (\<lambda>a b. fl_le (valor a) (valor b)) ys"
    if l: "lances leilao_120_nan_110 ys" for ys
  proof -
    from perm[OF l] have m: "mset ys = mset (priv_lances leilao_120_nan_110)" .
    then have "set ys = set (priv_lances leilao_120_nan_110)" by (rule mset_eq_setD)
    then have "\<lparr>participante = 1, valor = NaN\<rparr> \<in> set ys" by (simp add: log)
    moreover have "length ys = 3" using mset_eq_length[OF m] by (simp add: log)
    ultimately show ?thesis using nan_nao_ordenado[of "\<lparr>participante = 1, valor = NaN\<rparr>" ys]
      by simp
  qed
  then have "\<not> (\<exists>ys. lances leilao_120_nan_110 ys
              \<and> sorted_wrt (\<lambda>a b. fl_le (valor a) (valor b)) ys)" by blast
  moreover have "lances leilao_120_nan_110
        [\<lparr>participante = 0, valor = Finito 120\<rparr>, \<lparr>participante = 1, valor = NaN\<rparr>,
         \<lparr>participante = 0, valor = Finito 110\<rparr>]"
    by (simp add: lances_def py_sorted_def log)
  ultimately show ?thesis
    by (simp add: propor_lances_nan_110 propor_lances_120_nan_110 maior_lance_nan_110
          menor_lance_nan_110 fl_lt_def)
qed

subsection \<open>Admission of bids\<close>

text \<open>
  C3. The claim fails for the sequence of Alice's bid of NaN, which \<open>Lance.__init__\<close>
  builds, and Bob's bid of 110, proposed at time 15 to the example auction of
  minimum 100: \<open>propor_lance\<close> admits both, although NaN is not at least the minimum and 110 is
  not greater than NaN.
\<close>

theorem propor_lances_admite_nan:
  "Lance_init (PyParticipante 0) (PyFloat NaN) = Inr \<lparr>participante = 0, valor = NaN\<rparr>
   \<and> lance_minimo leilao_exemplo = Finito 100
   \<and> priv_lances leilao_exemplo = []
   \<and> priv_lances (snd (propor_lances lances_nan_110 (heap_exemplo, leilao_exemplo)))
       = [\<lparr>participante = 0, valor = NaN\<rparr>, \<lparr>participante = 1, valor = Finito 110\<rparr>]
   \<and> \<not> fl_le (Finito 100) NaN
   \<and> \<not> fl_lt NaN (Finito 110)"
  by (simp add: Lance_init_nan propor_lances_nan_110 fl_le_def fl_lt_def)
     (simp add: leilao_nan_110_def leilao_exemplo_def)

text \<open>
  C4. The claim fails when the clock passes the end of the window between the test of
  the state in \<open>propor_lance\<close> and the one in \<open>_pode_receber_lance\<close>. With the readings 19,
  19 and 20, the auction with Alice's bid of 110 is \<open>ABERTO\<close> when \<open>propor_lance\<close> tests it;
  Bob's bid of 120 is well-formed, not below the minimum, greater than the last bid and
  from another bidder; and the call raises \<open>LanceInvalido\<close> with the default reason, which
  is none of the three.
\<close>

theorem propor_lance_motivo_desconhecido:
  "atualizar_estado (relogio_passa_do_fim 0) leilao_um_lance = (leilao_um_lance, Inr ())
   \<and> atualizar_estado (relogio_passa_do_fim 1) leilao_um_lance = (leilao_um_lance, Inr ())
   \<and> priv_estado leilao_um_lance = ABERTO
   \<and> fl_le (lance_minimo leilao_um_lance) (Finito 120)
   \<and> fl_lt (valor (last (priv_lances leilao_um_lance))) (Finito 120)
   \<and> \<not> participante_eq (heap_exemplo 1)
         (heap_exemplo (participante (last (priv_lances leilao_um_lance))))
   \<and> propor_lance relogio_passa_do_fim (PyLance \<lparr>participante = 1, valor = Finito 120\<rparr>)
        (heap_exemplo, leilao_um_lance)
      = ((heap_exemplo, leilao_finalizado), Inl (LanceInvalido ''Console'' Desconhecido))"
proof -
  have a: "atualizar_estado (relogio_passa_do_fim 0) leilao_um_lance = (leilao_um_lance, Inr ())"
    "atualizar_estado (relogio_passa_do_fim 1) leilao_um_lance = (leilao_um_lance, Inr ())"
    "atualizar_estado (relogio_passa_do_fim 2) leilao_um_lance = (leilao_finalizado, Inr ())"
    by (simp_all add: atualizar_estado_naive[of _ 10 20] relogio_passa_do_fim_def maior_lance_def
          leilao_um_lance_def leilao_exemplo_def leilao_finalizado_def)
  have e: "priv_estado leilao_um_lance = ABERTO"
    by (simp add: leilao_um_lance_def)
  have "propor_lance relogio_passa_do_fim (PyLance \<lparr>participante = 1, valor = Finito 120\<rparr>)
        (heap_exemplo, leilao_um_lance)
      = ((heap_exemplo, leilao_finalizado), Inl (LanceInvalido ''Console'' Desconhecido))"
    unfolding propor_lance_lance[where clk=relogio_passa_do_fim, OF a(1) a(2) e] a
    by (simp add: motivo_rejeicao_def fl_lt_def fl_le_def participante_eq_def
          leilao_um_lance_def leilao_exemplo_def leilao_finalizado_def heap_exemplo_def
          alice_def bob_def)
  then show ?thesis using a(1,2)
    by (simp add: fl_lt_def fl_le_def participante_eq_def leilao_um_lance_def leilao_exemplo_def
          heap_exemplo_def alice_def bob_def)
qed

subsection \<open>Construction and alteration\<close>

text \<open>
  C6. The claim fails for a minimum of NaN: the constructor tests \<open>lance_minimo <= 0\<close>,
  which is false of NaN, and returns an auction whose minimum is not greater than 0. Besides,
  the constructor raises \<open>OverflowError\<close>, not \<open>ValueError\<close>, for a minimum of \<open>10 ** 309\<close>
  and \<open>TypeError\<close> for two aware dates; and \<open>alterar_leilao\<close> with these arguments raises
  the same exceptions after it has assigned the new name, or the new dates.
\<close>

theorem Leilao_init_minimo_nan:
  "Leilao_init (PyStr ''Console'') (PyFloat NaN) (PyDatetime (Naive 10)) (PyDatetime (Naive 20)) 5
     = Inr leilao_minimo_nan
   \<and> lance_minimo leilao_minimo_nan = NaN
   \<and> \<not> fl_lt (Finito 0) (lance_minimo leilao_minimo_nan)
   \<and> Leilao_init (PyStr ''Console'') (PyInt enorme) (PyDatetime (Naive 10))
        (PyDatetime (Naive 20)) 5 = Inl OverflowError
   \<and> Leilao_init (PyStr ''Console'') (PyInt 100) (PyDatetime (Aware 10))
        (PyDatetime (Aware 20)) 5 = Inl (TypeError NaiveComAware)
   \<and> alterar_leilao (relogio_parado 5) (PyStr ''Console'') (PyStr ''Novo'') (PyInt enorme)
        PyNone PyNone [leilao_exemplo] = ([leilao_renomeado], Inl OverflowError)
   \<and> alterar_leilao (relogio_parado 5) (PyStr ''Console'') PyNone PyNone
        (PyDatetime (Aware 12)) (PyDatetime (Aware 22)) [leilao_exemplo]
       = ([leilao_aware], Inl (TypeError NaiveComAware))"
proof -
  have a: "atualizar_estado t leilao_minimo_nan = (if t < 10 then leilao_minimo_nan
      else if t < 20 then leilao_minimo_nan\<lparr>priv_estado := ABERTO\<rparr>
      else leilao_minimo_nan\<lparr>priv_estado := EXPIRADO\<rparr>, Inr ())" for t
    by (simp add: atualizar_estado_naive[of _ 10 20] leilao_minimo_nan_def leilao_exemplo_def)
  have i1: "Leilao_init (PyStr ''Console'') (PyFloat NaN) (PyDatetime (Naive 10))
      (PyDatetime (Naive 20)) 5 = Inr leilao_minimo_nan"
    by (simp add: Leilao_init_def validar_def fl_le_def atualizar_estado_naive[of _ 10 20]
          leilao_minimo_nan_def leilao_exemplo_def)
  have i2: "Leilao_init (PyStr ''Console'') (PyInt enorme) (PyDatetime (Naive 10))
        (PyDatetime (Naive 20)) 5 = Inl OverflowError"
    by (simp add: Leilao_init_def validar_def float_de_int_overflow enorme_positivo)
  have i3: "Leilao_init (PyStr ''Console'') (PyInt 100) (PyDatetime (Aware 10))
        (PyDatetime (Aware 20)) 5 = Inl (TypeError NaiveComAware)"
    by (simp add: Leilao_init_def validar_def float_de_int_pequeno atualizar_estado_def)
  have p: "pode_ser_alterado_ou_excluido (relogio_parado 5 0) leilao_exemplo
      = (leilao_exemplo, Inr True)"
    by (simp add: pode_ser_alterado_ou_excluido_def estado_def atualizar_estado_naive[of _ 10 20]
          relogio_parado_def leilao_exemplo_def)
  have b: "buscar_leilao_por_nome [leilao_exemplo] (PyStr ''Console'') = Some 0"
    "buscar_leilao_por_nome [leilao_exemplo] (PyStr ''Novo'') = None"
    by (simp_all add: leilao_exemplo_def)
  have v1: "validar (PyStr ''Novo'') (PyInt enorme) (PyDatetime (data_inicio leilao_exemplo))
      (PyDatetime (data_termino leilao_exemplo)) = Inr (''Novo'', NumInt enorme, Naive 10, Naive 20)"
    by (simp add: validar_def enorme_positivo leilao_exemplo_def)
  have a1: "alterar_leilao (relogio_parado 5) (PyStr ''Console'') (PyStr ''Novo'') (PyInt enorme)
        PyNone PyNone [leilao_exemplo] = ([leilao_renomeado], Inl OverflowError)"
    by (simp add: alterar_leilao_def b p v1 float_de_int_overflow leilao_renomeado_def)
       (simp add: leilao_exemplo_def)
  have a2: "alterar_leilao (relogio_parado 5) (PyStr ''Console'') PyNone PyNone
        (PyDatetime (Aware 12)) (PyDatetime (Aware 22)) [leilao_exemplo]
       = ([leilao_aware], Inl (TypeError NaiveComAware))"
    by (simp add: alterar_leilao_def b p)
       (simp add: validar_def fl_le_def atualizar_estado_def leilao_aware_def leilao_exemplo_def)
  show ?thesis using i1 i2 i3 a1 a2
    by (simp add: fl_lt_def leilao_minimo_nan_def)
qed

end
